theory Spec2Isabelle
  imports Main
begin

section \<open>GTASceneSync: names, ids and the two exporters\<close>

text \<open>
  A shallow embedding of \<^verbatim>\<open>GTASceneSync.py\<close>: the two regular-expression helpers
  \<^verbatim>\<open>clean_name\<close> and \<^verbatim>\<open>clean_collection_name\<close>, the operator
  \<^verbatim>\<open>ExportAsIDE.execute\<close>, and \<^verbatim>\<open>ExportAsIPL\<close> with its methods
  \<^verbatim>\<open>generate_mapping\<close>, \<^verbatim>\<open>write_ipl\<close> and \<^verbatim>\<open>execute\<close>.

  Python strings are modelled as \<^typ>\<open>string\<close>, read as sequences of code points below
  256. On these, the pattern class \<^verbatim>\<open>\d\<close> matches exactly the ten ASCII digits and
  \<^verbatim>\<open>re.IGNORECASE\<close> relates \<^verbatim>\<open>d\<close>, \<^verbatim>\<open>f\<close> only to \<^verbatim>\<open>D\<close>, \<^verbatim>\<open>F\<close>.
  Python integers are \<^typ>\<open>int\<close>.
\<close>

subsection \<open>The regular expressions\<close>

definition is_digit :: "char \<Rightarrow> bool" where
  "is_digit c = (c \<in> set ''0123456789'')"

text \<open>
  Without \<^verbatim>\<open>re.MULTILINE\<close>, the anchor \<^verbatim>\<open>$\<close> matches at the end of the string and
  also just before a newline that is the last character. \<open>at_end rest\<close> says that the
  anchor matches when \<open>rest\<close> is what is left of the string.
\<close>

definition at_end :: "string \<Rightarrow> bool" where
  "at_end rest = (rest = [] \<or> rest = [CHR 0x0A])"

text \<open>
  \<open>match_num s\<close>: the pattern \<^verbatim>\<open>\.\d+$\<close> matches at the start of \<open>s\<close>. The greedy
  \<^verbatim>\<open>\d+\<close> takes the whole run of digits; giving digits back cannot help, since the
  anchor does not match in front of a digit.
\<close>

definition match_num :: "string \<Rightarrow> bool" where
  "match_num s =
     (case s of
        [] \<Rightarrow> False
      | c # r \<Rightarrow> c = CHR ''.'' \<and> takeWhile is_digit r \<noteq> [] \<and> at_end (dropWhile is_digit r))"

text \<open>
  \<^verbatim>\<open>re.sub(r"\.\d+$", "", name)\<close>: scan from the left for the first position where the
  pattern matches, delete the match, and keep what follows it (nothing, or the final
  newline, where no further match can start).
\<close>

fun clean_name :: "string \<Rightarrow> string" where
  "clean_name [] = []"
| "clean_name (c # cs) =
     (if match_num (c # cs) then dropWhile is_digit cs else c # clean_name cs)"

definition ci_eq :: "char \<Rightarrow> char \<Rightarrow> char \<Rightarrow> bool" where
  "ci_eq lo up c = (c = lo \<or> c = up)"

text \<open>\<open>match_dff s\<close>: the pattern \<^verbatim>\<open>\.dff$\<close> with \<^verbatim>\<open>re.IGNORECASE\<close> matches at the start of \<open>s\<close>.\<close>

definition match_dff :: "string \<Rightarrow> bool" where
  "match_dff s =
     (case s of
        c0 # c1 # c2 # c3 # rest \<Rightarrow>
          c0 = CHR ''.'' \<and> ci_eq CHR ''d'' CHR ''D'' c1 \<and> ci_eq CHR ''f'' CHR ''F'' c2
          \<and> ci_eq CHR ''f'' CHR ''F'' c3 \<and> at_end rest
      | _ \<Rightarrow> False)"

fun clean_collection_name :: "string \<Rightarrow> string" where
  "clean_collection_name [] = []"
| "clean_collection_name (c # cs) =
     (if match_dff (c # cs) then drop 3 cs else c # clean_collection_name cs)"

subsection \<open>Scene objects\<close>

text \<open>
  What the exporters read of a Blender object. \<open>users_collection\<close> lists the names of the
  collections the object is in; \<open>matrix_world\<close> is kept as the pair of values that
  \<^verbatim>\<open>to_translation()\<close> and \<^verbatim>\<open>to_quaternion()\<close> return for it. The scalar type
  \<open>'a\<close> stands for Python's floats.
\<close>

record 'a vec3 =
  vx :: 'a
  vy :: 'a
  vz :: 'a

record 'a quat =
  qw :: 'a
  qx :: 'a
  qy :: 'a
  qz :: 'a

record ide_flags_props =
  texture_name :: string
  render_distance :: int
  ide_flag :: string

record 'a object =
  name :: string
  otype :: string
  users_collection :: "string list"
  ide_flags :: ide_flags_props
  world_translation :: "'a vec3"
  world_quaternion :: "'a quat"

text \<open>
  The expression that all three loops share, word for word:
  \<^verbatim>\<open>coll = o.users_collection[0] if o.users_collection else None\<close> and then
  \<^verbatim>\<open>clean_collection_name(coll.name) if coll else clean_name(o.name)\<close>.
\<close>

definition base_name :: "'a object \<Rightarrow> string" where
  "base_name obj =
     (case users_collection obj of
        [] \<Rightarrow> clean_name (name obj)
      | coll # _ \<Rightarrow> clean_collection_name coll)"

text \<open>\<^verbatim>\<open>name or 'Unnamed'\<close>: the empty string is false.\<close>

definition or_unnamed :: "string \<Rightarrow> string" where
  "or_unnamed nm = (if nm = [] then ''Unnamed'' else nm)"

text \<open>The name as \<^verbatim>\<open>generate_mapping\<close> and \<^verbatim>\<open>write_ipl\<close> compute it.\<close>

definition ipl_name :: "'a object \<Rightarrow> string" where
  "ipl_name obj = or_unnamed (base_name obj)"

subsection \<open>Dictionaries and formatting\<close>

text \<open>
  A Python \<^verbatim>\<open>dict\<close> keeps its keys in insertion order, and \<^verbatim>\<open>unique.items()\<close> is read
  in that order, so a dictionary is an association list that grows at its end. Both loops
  store a key only after testing that it is absent.
\<close>

type_synonym ('k, 'v) pydict = "('k \<times> 'v) list"

definition dict_has :: "('k, 'v) pydict \<Rightarrow> 'k \<Rightarrow> bool" where
  "dict_has d k = (map_of d k \<noteq> None)"

definition dict_get :: "('k, 'v) pydict \<Rightarrow> 'k \<Rightarrow> 'v \<Rightarrow> 'v" where
  "dict_get d k dflt = (case map_of d k of None \<Rightarrow> dflt | Some v \<Rightarrow> v)"

fun str_nat :: "nat \<Rightarrow> string" where
  "str_nat n = (if n < 10 then [''0123456789'' ! n] else str_nat (n div 10) @ [''0123456789'' ! (n mod 10)])"

declare str_nat.simps [simp del]

text \<open>An integer in an f-string: decimal digits, with a minus sign when negative.\<close>

definition str_int :: "int \<Rightarrow> string" where
  "str_int i = (if i < 0 then CHR ''-'' # str_nat (nat (- i)) else str_nat (nat i))"

subsection \<open>Starting ids\<close>

datatype pyexn = AttributeError | ValueError

text \<open>
  \<open>scene_id\<close> is the scene property \<^verbatim>\<open>gtass_model_id\<close>, \<open>None\<close> when the scene has no
  such attribute. \<^verbatim>\<open>a or b\<close> on integers is \<open>b\<close> when \<open>a\<close> is zero.

  \<^verbatim>\<open>ExportAsIDE.execute\<close>:
  \<^verbatim>\<open>start_id = self.model_id or getattr(context.scene, "gtass_model_id", 4542)\<close>.
\<close>

definition ide_start_id :: "int \<Rightarrow> int option \<Rightarrow> int" where
  "ide_start_id mid scene_id =
     (if mid \<noteq> 0 then mid
      else case scene_id of None \<Rightarrow> 4542 | Some s \<Rightarrow> s)"

text \<open>
  \<^verbatim>\<open>ExportAsIPL.generate_mapping\<close>:
  \<^verbatim>\<open>cur = self.model_id or bpy.context.scene.gtass_model_id\<close>; the attribute access
  raises when the scene has no such attribute. The scene of \<^verbatim>\<open>bpy.context\<close> is taken
  to be the scene of the context that \<^verbatim>\<open>execute\<close> receives.
\<close>

definition ipl_start_id :: "int \<Rightarrow> int option \<Rightarrow> pyexn + int" where
  "ipl_start_id mid scene_id =
     (if mid \<noteq> 0 then Inr mid
      else case scene_id of None \<Rightarrow> Inl AttributeError | Some s \<Rightarrow> Inr s)"

text \<open>The default of the operator property \<^verbatim>\<open>model_id\<close> of both operators.\<close>

definition model_id_default :: int where
  "model_id_default = 4542"

subsection \<open>The two allocation loops\<close>

text \<open>
  The loop of \<^verbatim>\<open>ExportAsIDE.execute\<close> over \<^verbatim>\<open>objs\<close>, with the state
  \<^verbatim>\<open>(unique, cur)\<close>. An entry is \<^verbatim>\<open>(cur, texture_name, render_distance, ide_flag)\<close>.
  The name is used as it comes out of the regular expression.
\<close>

type_synonym ide_entry = "int \<times> string \<times> int \<times> string"

fun ide_loop :: "'a object list \<Rightarrow> (string, ide_entry) pydict \<times> int \<Rightarrow> (string, ide_entry) pydict \<times> int" where
  "ide_loop [] st = st"
| "ide_loop (obj # objs) (unique, cur) =
     (let base = base_name obj; props = ide_flags obj in
      if \<not> dict_has unique base
      then ide_loop objs
             (unique @ [(base, (cur, texture_name props, render_distance props, ide_flag props))],
              cur + 1)
      else ide_loop objs (unique, cur))"

text \<open>The loop of \<^verbatim>\<open>ExportAsIPL.generate_mapping\<close>, with the state \<^verbatim>\<open>(mapping, cur)\<close>.\<close>

fun mapping_loop :: "'a object list \<Rightarrow> (string, int) pydict \<times> int \<Rightarrow> (string, int) pydict \<times> int" where
  "mapping_loop [] st = st"
| "mapping_loop (ob # objs) (mapping, cur) =
     (let nm = or_unnamed (base_name ob) in
      if \<not> dict_has mapping nm
      then mapping_loop objs (mapping @ [(nm, cur)], cur + 1)
      else mapping_loop objs (mapping, cur))"

definition generate_mapping :: "int \<Rightarrow> int option \<Rightarrow> 'a object list \<Rightarrow> pyexn + (string, int) pydict" where
  "generate_mapping mid scene_id objs =
     (case ipl_start_id mid scene_id of
        Inl e \<Rightarrow> Inl e
      | Inr cur \<Rightarrow> Inr (fst (mapping_loop objs ([], cur))))"

text \<open>
  The name-to-id dictionary that the definitions exporter builds inside \<^verbatim>\<open>unique\<close>:
  each entry cut down to its first component.
\<close>

definition ids_of :: "(string, ide_entry) pydict \<Rightarrow> (string, int) pydict" where
  "ids_of unique = map (\<lambda>(nm, e). (nm, fst e)) unique"

definition ide_mapping :: "int \<Rightarrow> 'a object list \<Rightarrow> (string, int) pydict" where
  "ide_mapping start_id objs = ids_of (fst (ide_loop objs ([], start_id)))"

subsection \<open>Files\<close>

text \<open>
  The disk maps a path to the chunks written to the file at that path, one chunk for each
  call of \<^verbatim>\<open>f.write\<close>. The environment decides which calls fail: \<open>open_error\<close> is the
  message of the exception that \<^verbatim>\<open>open\<close> raises, if it raises one; \<open>writes_ok = Some k\<close>
  lets the first \<open>k\<close> calls of \<^verbatim>\<open>f.write\<close> succeed and the next one raise an exception
  with the message \<open>write_error\<close>. What a failing write leaves in the file is taken to be
  the chunks of the calls before it; \<^verbatim>\<open>open(path, 'w')\<close> creates or empties the file
  as soon as it succeeds.
\<close>

type_synonym disk = "string \<rightharpoonup> string list"

record io_env =
  open_error :: "string option"
  writes_ok :: "nat option"
  write_error :: string

text \<open>
  An open file: what has been written, how many writes will still succeed, and the
  exception raised so far. Once an exception is raised, the rest of the \<^verbatim>\<open>with\<close> body
  is skipped, so a later write changes nothing.
\<close>

record handle =
  written :: "string list"
  budget :: "nat option"
  raised :: "string option"

definition f_open :: "io_env \<Rightarrow> handle" where
  "f_open env = \<lparr>written = [], budget = writes_ok env, raised = None\<rparr>"

definition f_write :: "io_env \<Rightarrow> string \<Rightarrow> handle \<Rightarrow> handle" where
  "f_write env s h =
     (if raised h \<noteq> None then h
      else case budget h of
             None \<Rightarrow> h\<lparr>written := written h @ [s]\<rparr>
           | Some 0 \<Rightarrow> h\<lparr>raised := Some (write_error env)\<rparr>
           | Some (Suc k) \<Rightarrow> h\<lparr>written := written h @ [s], budget := Some k\<rparr>)"

subsection \<open>Operators and their results\<close>

datatype level = INFO | WARNING | ERROR

datatype ret = FINISHED | CANCELLED | Raised pyexn

record operator =
  filepath :: string
  model_id :: int

record 'a ipl_operator = operator +
  apply_default_rotation :: bool
  default_rotation :: "'a vec3"

record 'a blender_context =
  selected_objects :: "'a object list"
  gtass_model_id :: "int option"

text \<open>
  What a call of \<^verbatim>\<open>execute\<close> leaves behind: the returned set (or the exception that
  escaped), the messages passed to \<^verbatim>\<open>self.report\<close>, the disk, and \<^verbatim>\<open>self.filepath\<close>.
\<close>

record outcome =
  ret :: ret
  reports :: "(level \<times> string) list"
  disk_after :: disk
  filepath_after :: string

definition mesh_objects :: "'a blender_context \<Rightarrow> 'a object list" where
  "mesh_objects context = filter (\<lambda>ob. otype ob = ''MESH'') (selected_objects context)"

subsection \<open>\<^verbatim>\<open>ExportAsIDE.execute\<close>\<close>

text \<open>\<^verbatim>\<open>str.lower\<close> on code points below 256.\<close>

definition lower_char :: "char \<Rightarrow> char" where
  "lower_char c =
     (let n = (of_char c :: nat) in
      if (65 \<le> n \<and> n \<le> 90) \<or> (192 \<le> n \<and> n \<le> 222 \<and> n \<noteq> 215) then char_of (n + 32) else c)"

definition endswith :: "string \<Rightarrow> string \<Rightarrow> bool" where
  "endswith s suf = (length suf \<le> length s \<and> drop (length s - length suf) s = suf)"

definition ide_line :: "string \<times> ide_entry \<Rightarrow> string" where
  "ide_line = (\<lambda>(nm, mid, txd, dist, flag).
     str_int mid @ '', '' @ nm @ '', '' @ txd @ '', '' @ str_int dist @ '', '' @ flag @ [CHR 0x0A])"

fun write_ide_records :: "io_env \<Rightarrow> (string, ide_entry) pydict \<Rightarrow> handle \<Rightarrow> handle" where
  "write_ide_records env [] f = f"
| "write_ide_records env (item # items) f = write_ide_records env items (f_write env (ide_line item) f)"

definition execute_ide :: "io_env \<Rightarrow> disk \<Rightarrow> operator \<Rightarrow> 'a blender_context \<Rightarrow> outcome" where
  "execute_ide env dsk self context =
     (let objs = mesh_objects context in
      if objs = []
      then \<lparr>ret = CANCELLED, reports = [(WARNING, ''No mesh objects selected.'')],
            disk_after = dsk, filepath_after = filepath self\<rparr>
      else
        let path = (if \<not> endswith (map lower_char (filepath self)) ''.ide''
                    then filepath self @ ''.ide'' else filepath self);
            start_id = ide_start_id (model_id self) (gtass_model_id context)
        in case open_error env of
             Some msg \<Rightarrow>
               \<lparr>ret = CANCELLED, reports = [(ERROR, ''IDE export failed: '' @ msg)],
                disk_after = dsk, filepath_after = path\<rparr>
           | None \<Rightarrow>
               let f = f_write env (''objs'' @ [CHR 0x0A]) (f_open env);
                   unique = fst (ide_loop objs ([], start_id));
                   f = write_ide_records env unique f;
                   f = f_write env (''end'' @ [CHR 0x0A]) f;
                   dsk' = dsk(path \<mapsto> written f)
               in case raised f of
                    Some msg \<Rightarrow>
                      \<lparr>ret = CANCELLED, reports = [(ERROR, ''IDE export failed: '' @ msg)],
                       disk_after = dsk', filepath_after = path\<rparr>
                  | None \<Rightarrow>
                      \<lparr>ret = FINISHED, reports = [(INFO, ''IDE export complete: '' @ path)],
                       disk_after = dsk', filepath_after = path\<rparr>)"

subsection \<open>\<^verbatim>\<open>ExportAsIPL\<close>\<close>

text \<open>
  What the placement exporter takes from outside the add-on, as parameters:
  \<open>euler_to_quaternion v\<close> is \<^verbatim>\<open>mathutils.Euler(v, 'XYZ').to_quaternion()\<close>,
  \<open>quat_matmul a b\<close> is \<^verbatim>\<open>a @ b\<close> on quaternions, \<open>fmt v\<close> is the text of
  \<^verbatim>\<open>f"{v:.6f}"\<close>, and \<open>with_ipl_suffix p\<close> is what \<^verbatim>\<open>validate_filepath\<close> computes from
  the path \<open>p\<close> with \<^verbatim>\<open>pathlib\<close> (\<open>None\<close> when \<^verbatim>\<open>with_suffix\<close> raises).
  Negation of a float is the \<open>-\<close> of the scalar type.
\<close>

record 'a externals =
  euler_to_quaternion :: "'a vec3 \<Rightarrow> 'a quat"
  quat_matmul :: "'a quat \<Rightarrow> 'a quat \<Rightarrow> 'a quat"
  fmt :: "'a \<Rightarrow> string"
  with_ipl_suffix :: "string \<Rightarrow> string option"

text \<open>The values that one turn of the loop of \<^verbatim>\<open>write_ipl\<close> puts into its line.\<close>

record 'a ipl_rec =
  r_mid :: int
  r_nm :: string
  r_inter :: int
  r_pos :: "'a vec3"
  r_rx :: 'a
  r_ry :: 'a
  r_rz :: 'a
  r_rw :: 'a
  r_lod :: int

definition ipl_record :: "('a::uminus) externals \<Rightarrow> 'a ipl_operator \<Rightarrow> (string, int) pydict \<Rightarrow> 'a object \<Rightarrow> 'a ipl_rec" where
  "ipl_record ext self mapping obj =
     (let inter = 0; lod = - 1;
          pos = world_translation obj; base = world_quaternion obj;
          base = (if apply_default_rotation self
                  then let off = euler_to_quaternion ext (default_rotation self)
                       in quat_matmul ext off base
                  else base);
          nm = base_name obj;
          nm = or_unnamed nm;
          mid = dict_get mapping nm (- 1)
      in \<lparr>r_mid = mid, r_nm = nm, r_inter = inter, r_pos = pos,
          r_rx = - qx base, r_ry = qy base, r_rz = - qz base, r_rw = qw base, r_lod = lod\<rparr>)"

definition ipl_line :: "'a externals \<Rightarrow> 'a ipl_rec \<Rightarrow> string" where
  "ipl_line ext r =
     str_int (r_mid r) @ '', '' @ r_nm r @ '', '' @ str_int (r_inter r) @ '', ''
     @ fmt ext (vx (r_pos r)) @ '', '' @ fmt ext (vy (r_pos r)) @ '', '' @ fmt ext (vz (r_pos r)) @ '', ''
     @ fmt ext (r_rx r) @ '', '' @ fmt ext (r_ry r) @ '', '' @ fmt ext (r_rz r) @ '', ''
     @ fmt ext (r_rw r) @ '', '' @ str_int (r_lod r) @ [CHR 0x0A]"

fun write_ipl_records :: "('a::uminus) externals \<Rightarrow> 'a ipl_operator \<Rightarrow> io_env \<Rightarrow> (string, int) pydict \<Rightarrow> 'a object list \<Rightarrow> handle \<Rightarrow> handle" where
  "write_ipl_records ext self env mapping [] f = f"
| "write_ipl_records ext self env mapping (obj # objs) f =
     write_ipl_records ext self env mapping objs
       (f_write env (ipl_line ext (ipl_record ext self mapping obj)) f)"

definition ipl_header :: string where
  "ipl_header = ''# Exported with GTASceneSync'' @ [CHR 0x0A] @ ''inst'' @ [CHR 0x0A]"

definition write_ipl :: "('a::uminus) externals \<Rightarrow> 'a ipl_operator \<Rightarrow> io_env \<Rightarrow> handle \<Rightarrow> 'a object list \<Rightarrow> (string, int) pydict \<Rightarrow> handle" where
  "write_ipl ext self env f objs mapping =
     f_write env (''end'' @ [CHR 0x0A])
       (write_ipl_records ext self env mapping objs (f_write env ipl_header f))"

definition execute_ipl :: "('a::uminus) externals \<Rightarrow> io_env \<Rightarrow> disk \<Rightarrow> 'a ipl_operator \<Rightarrow> 'a blender_context \<Rightarrow> outcome" where
  "execute_ipl ext env dsk self context =
     (let objs = mesh_objects context in
      if objs = []
      then \<lparr>ret = CANCELLED, reports = [(WARNING, ''No mesh objects selected.'')],
            disk_after = dsk, filepath_after = filepath self\<rparr>
      else case with_ipl_suffix ext (filepath self) of
        None \<Rightarrow>
          \<lparr>ret = Raised ValueError, reports = [], disk_after = dsk, filepath_after = filepath self\<rparr>
      | Some path \<Rightarrow>
         (case generate_mapping (model_id self) (gtass_model_id context) objs of
            Inl e \<Rightarrow> \<lparr>ret = Raised e, reports = [], disk_after = dsk, filepath_after = path\<rparr>
          | Inr mapping \<Rightarrow>
             (case open_error env of
                Some msg \<Rightarrow>
                  \<lparr>ret = CANCELLED, reports = [(ERROR, ''IPL export failed: '' @ msg)],
                   disk_after = dsk, filepath_after = path\<rparr>
              | None \<Rightarrow>
                  let f = write_ipl ext self env (f_open env) objs mapping;
                      dsk' = dsk(path \<mapsto> written f)
                  in case raised f of
                       Some msg \<Rightarrow>
                         \<lparr>ret = CANCELLED, reports = [(ERROR, ''IPL export failed: '' @ msg)],
                          disk_after = dsk', filepath_after = path\<rparr>
                     | None \<Rightarrow>
                         \<lparr>ret = FINISHED, reports = [(INFO, ''IPL export complete: '' @ path)],
                          disk_after = dsk', filepath_after = path\<rparr>)))"

text \<open>
  \<^verbatim>\<open>invoke\<close> of both operators, before the file dialog:
  \<^verbatim>\<open>if (not self.model_id or self.model_id == 4542) and hasattr(context.scene, "gtass_model_id")\<close>
  then \<^verbatim>\<open>self.model_id = context.scene.gtass_model_id\<close>. The value is the new
  \<^verbatim>\<open>self.model_id\<close>.
\<close>

definition invoke_model_id :: "int \<Rightarrow> int option \<Rightarrow> int" where
  "invoke_model_id mid scene_id =
     (case scene_id of
        Some s \<Rightarrow> if mid = 0 \<or> mid = 4542 then s else mid
      | None \<Rightarrow> mid)"

subsection \<open>The allocator of the specification\<close>

text \<open>
  The ID allocator in the words of the specification (section 4.2), for comparison with
  the two loops of the source: iterate the sequence in order; for each name not yet
  present in the output mapping, assign the next integer counter (beginning at
  \<open>startId\<close>) and increment the counter; repeated names are skipped.
\<close>

fun spec_allocate_from :: "'k list \<Rightarrow> ('k, int) pydict \<times> int \<Rightarrow> ('k, int) pydict \<times> int" where
  "spec_allocate_from [] st = st"
| "spec_allocate_from (n # ns) (m, cur) =
     (if dict_has m n then spec_allocate_from ns (m, cur)
      else spec_allocate_from ns (m @ [(n, cur)], cur + 1))"

definition spec_allocate :: "'k list \<Rightarrow> int \<Rightarrow> ('k, int) pydict" where
  "spec_allocate names startId = fst (spec_allocate_from names ([], startId))"

text \<open>
  Two notions for stating results: the distinct elements of a list in the order of their
  first occurrences, and the run of \<open>n\<close> consecutive integers from \<open>start\<close>.
\<close>

definition first_seen :: "'k list \<Rightarrow> 'k list" where
  "first_seen ns = rev (remdups (rev ns))"

definition run :: "int \<Rightarrow> nat \<Rightarrow> int list" where
  "run start n = map (\<lambda>k. start + int k) [0..<n]"

text \<open>The chunks of a complete definitions file and of a complete placements file.\<close>

definition ide_output :: "int \<Rightarrow> 'a object list \<Rightarrow> string list" where
  "ide_output start_id objs =
     (''objs'' @ [CHR 0x0A]) # map ide_line (fst (ide_loop objs ([], start_id))) @ [''end'' @ [CHR 0x0A]]"

definition ipl_output :: "('a::uminus) externals \<Rightarrow> 'a ipl_operator \<Rightarrow> (string, int) pydict \<Rightarrow> 'a object list \<Rightarrow> string list" where
  "ipl_output ext self mapping objs =
     ipl_header # map (\<lambda>obj. ipl_line ext (ipl_record ext self mapping obj)) objs @ [''end'' @ [CHR 0x0A]]"

text \<open>A mesh object with default attributes, for the concrete instances below.\<close>

definition mesh_named :: "string \<Rightarrow> string list \<Rightarrow> int object" where
  "mesh_named nm colls =
     \<lparr>name = nm, otype = ''MESH'', users_collection = colls,
      ide_flags = \<lparr>texture_name = ''generic'', render_distance = 299, ide_flag = ''0''\<rparr>,
      world_translation = \<lparr>vx = 0, vy = 0, vz = 0\<rparr>,
      world_quaternion = \<lparr>qw = 1, qx = 0, qy = 0, qz = 0\<rparr>\<rparr>"

text \<open>
  Stand-ins over the integers for what comes from outside the add-on, for the concrete
  instances: the Hamilton product, the identity rotation for the zero Euler triple,
  integers printed as they are, and paths left as they are. Two environments: one in
  which no call fails, and one in which the disk is full after \<open>k\<close> writes.
\<close>

definition example_externals :: "int externals" where
  "example_externals =
     \<lparr>euler_to_quaternion = (\<lambda>v. \<lparr>qw = 1, qx = 0, qy = 0, qz = 0\<rparr>),
      quat_matmul = (\<lambda>a b.
         \<lparr>qw = qw a * qw b - qx a * qx b - qy a * qy b - qz a * qz b,
          qx = qw a * qx b + qx a * qw b + qy a * qz b - qz a * qy b,
          qy = qw a * qy b - qx a * qz b + qy a * qw b + qz a * qx b,
          qz = qw a * qz b + qx a * qy b - qy a * qx b + qz a * qw b\<rparr>),
      fmt = str_int,
      with_ipl_suffix = Some\<rparr>"

definition no_fault :: io_env where
  "no_fault = \<lparr>open_error = None, writes_ok = None, write_error = []\<rparr>"

definition disk_full_after :: "nat \<Rightarrow> io_env" where
  "disk_full_after k = \<lparr>open_error = None, writes_ok = Some k, write_error = ''No space left on device''\<rparr>"

section \<open>Properties\<close>

subsection \<open>Names\<close>

lemma clean_name_Wall: "clean_name ''Wall.003'' = ''Wall''"
  by (simp add: match_num_def is_digit_def at_end_def)

lemma clean_collection_name_House:
  assumes "c1 \<in> {CHR ''d'', CHR ''D''}" and "c2 \<in> {CHR ''f'', CHR ''F''}"
    and "c3 \<in> {CHR ''f'', CHR ''F''}"
  shows "clean_collection_name (''House'' @ [CHR ''.'', c1, c2, c3]) = ''House''"
  using assms by (simp add: match_dff_def ci_eq_def at_end_def)

text \<open>
  Claim C8. The name resolver maps an object named \<^verbatim>\<open>Wall.003\<close> that belongs to no
  collection to the name \<^verbatim>\<open>Wall\<close>, and maps any object whose first collection is named
  \<^verbatim>\<open>House.dff\<close>, with the suffix in any letter case, to \<^verbatim>\<open>House\<close>. This holds for
  the name as the definitions exporter computes it (\<open>base_name\<close>) and as the placements
  exporter computes it (\<open>ipl_name\<close>).
\<close>

theorem resolver_examples:
  "(name obj = ''Wall.003'' \<and> users_collection obj = []
      \<longrightarrow> base_name obj = ''Wall'' \<and> ipl_name obj = ''Wall'')
   \<and> (\<forall>c1 \<in> {CHR ''d'', CHR ''D''}. \<forall>c2 \<in> {CHR ''f'', CHR ''F''}. \<forall>c3 \<in> {CHR ''f'', CHR ''F''}.
        \<forall>others. users_collection obj = (''House'' @ [CHR ''.'', c1, c2, c3]) # others
          \<longrightarrow> base_name obj = ''House'' \<and> ipl_name obj = ''House'')"
proof (intro conjI impI ballI allI)
  assume "name obj = ''Wall.003'' \<and> users_collection obj = []"
  then show "base_name obj = ''Wall''"
    by (simp add: base_name_def clean_name_Wall del: clean_name.simps)
  then show "ipl_name obj = ''Wall''"
    by (simp add: ipl_name_def or_unnamed_def)
next
  fix c1 c2 c3 others
  assume c: "c1 \<in> {CHR ''d'', CHR ''D''}" "c2 \<in> {CHR ''f'', CHR ''F''}" "c3 \<in> {CHR ''f'', CHR ''F''}"
    and u: "users_collection obj = (''House'' @ [CHR ''.'', c1, c2, c3]) # others"
  show b: "base_name obj = ''House''"
    unfolding base_name_def u list.case by (rule clean_collection_name_House[OF c])
  show "ipl_name obj = ''House''"
    unfolding ipl_name_def b by (simp add: or_unnamed_def)
qed

theorem resolver_examples_witness:
  "base_name (mesh_named ''Wall.003'' []) = ''Wall''
   \<and> ipl_name (mesh_named ''Cube'' [''House.DfF'', ''Scene'']) = ''House''"
proof -
  have a: "name (mesh_named ''Wall.003'' []) = ''Wall.003''
           \<and> users_collection (mesh_named ''Wall.003'' []) = []"
    by (simp add: mesh_named_def)
  have b: "users_collection (mesh_named ''Cube'' [''House.DfF'', ''Scene''])
           = (''House'' @ [CHR ''.'', CHR ''D'', CHR ''f'', CHR ''F'']) # [''Scene'']"
    by (simp add: mesh_named_def)
  from resolver_examples[of "mesh_named ''Wall.003'' []", THEN conjunct1, rule_format, OF a]
  have 1: "base_name (mesh_named ''Wall.003'' []) = ''Wall''" by (rule conjunct1)
  have "CHR ''D'' \<in> {CHR ''d'', CHR ''D''}" "CHR ''f'' \<in> {CHR ''f'', CHR ''F''}"
    "CHR ''F'' \<in> {CHR ''f'', CHR ''F''}" by simp_all
  from resolver_examples[of "mesh_named ''Cube'' [''House.DfF'', ''Scene'']",
      THEN conjunct2, rule_format, OF this b]
  have 2: "ipl_name (mesh_named ''Cube'' [''House.DfF'', ''Scene'']) = ''House''" by (rule conjunct2)
  from 1 2 show ?thesis by (rule conjI)
qed

subsection \<open>Id allocation\<close>

lemma remdups_snoc: "remdups (ys @ [x]) = filter (\<lambda>y. y \<noteq> x) (remdups ys) @ [x]"
  by (induction ys) auto

lemma first_seen_Nil: "first_seen [] = []"
  by (simp add: first_seen_def)

lemma first_seen_Cons: "first_seen (x # xs) = x # filter (\<lambda>y. y \<noteq> x) (first_seen xs)"
  by (simp add: first_seen_def remdups_snoc rev_filter)

lemma set_first_seen: "set (first_seen ns) = set ns"
  by (simp add: first_seen_def)

lemma distinct_first_seen: "distinct (first_seen ns)"
  by (simp add: first_seen_def)

lemma length_first_seen: "length (first_seen ns) = card (set ns)"
  by (metis distinct_card distinct_first_seen set_first_seen)

lemma dict_has_keys: "dict_has m k \<longleftrightarrow> k \<in> fst ` set m"
  by (simp add: dict_has_def map_of_eq_None_iff)

lemma run_Suc: "run start (Suc n) = start # run (start + 1) n"
  unfolding run_def
  by (simp add: upt_conv_Cons map_Suc_upt[symmetric] del: upt_Suc)

lemma length_run: "length (run start n) = n"
  by (simp add: run_def)

lemma allocate_from_eq:
  "spec_allocate_from ns (m, cur) =
     (let new = filter (\<lambda>n. n \<notin> fst ` set m) (first_seen ns)
      in (m @ zip new (run cur (length new)), cur + int (length new)))"
proof (induction ns arbitrary: m cur)
  case Nil
  show ?case by (simp add: first_seen_Nil run_def)
next
  case (Cons n ns)
  show ?case
  proof (cases "dict_has m n")
    case True
    then have in_m: "n \<in> fst ` set m" by (simp add: dict_has_keys)
    have "filter (\<lambda>x. x \<notin> fst ` set m) (first_seen (n # ns)) = filter (\<lambda>x. x \<notin> fst ` set m) (first_seen ns)"
      using in_m by (auto simp: first_seen_Cons intro: filter_cong)
    with True Cons.IH[of m cur] show ?thesis by simp
  next
    case False
    then have out: "n \<notin> fst ` set m" by (simp add: dict_has_keys)
    have f: "filter (\<lambda>x. x \<notin> fst ` set m) (first_seen (n # ns))
           = n # filter (\<lambda>x. x \<notin> fst ` set (m @ [(n, cur)])) (first_seen ns)"
      using out by (auto simp: first_seen_Cons intro: filter_cong)
    show ?thesis
      using False Cons.IH[of "m @ [(n, cur)]" "cur + 1"]
      by (simp add: f run_Suc)
  qed
qed

lemma allocate_eq: "spec_allocate ns start = zip (first_seen ns) (run start (card (set ns)))"
  by (simp add: spec_allocate_def allocate_from_eq length_first_seen)

lemma mapping_loop_refines:
  "mapping_loop objs (m, cur) = spec_allocate_from (map ipl_name objs) (m, cur)"
  by (induction objs arbitrary: m cur) (simp_all add: ipl_name_def Let_def)

lemma keys_ids_of: "map fst (ids_of u) = map fst u"
  by (induction u) (auto simp: ids_of_def)

lemma dict_has_ids_of: "dict_has (ids_of u) k = dict_has u k"
  using keys_ids_of[of u] by (metis dict_has_keys set_map)

lemma ide_loop_refines:
  "(ids_of (fst (ide_loop objs (u, cur))), snd (ide_loop objs (u, cur)))
     = spec_allocate_from (map base_name objs) (ids_of u, cur)"
proof (induction objs arbitrary: u cur)
  case Nil
  show ?case by simp
next
  case (Cons ob objs)
  show ?case
    using Cons.IH[of u cur]
      Cons.IH[of "u @ [(base_name ob, (cur, texture_name (ide_flags ob), render_distance (ide_flags ob), ide_flag (ide_flags ob)))]" "cur + 1"]
    by (simp add: Let_def dict_has_ids_of) (simp add: ids_of_def)
qed

lemma ide_mapping_eq: "ide_mapping start objs = spec_allocate (map base_name objs) start"
  using ide_loop_refines[of objs "[]" start]
  by (simp add: ide_mapping_def spec_allocate_def ids_of_def split: prod.splits) (metis fst_conv)

lemma generate_mapping_loop_eq: "fst (mapping_loop objs ([], start)) = spec_allocate (map ipl_name objs) start"
  by (simp add: mapping_loop_refines spec_allocate_def)


lemma first_seen_append:
  "first_seen (xs @ ys) = first_seen xs @ filter (\<lambda>y. y \<notin> set xs) (first_seen ys)"
proof (induction xs)
  case Nil
  show ?case by (simp add: first_seen_Nil)
next
  case (Cons x xs)
  have "filter (\<lambda>y. y \<noteq> x) (filter (\<lambda>y. y \<notin> set xs) (first_seen ys))
        = filter (\<lambda>y. y \<notin> set (x # xs)) (first_seen ys)"
    by (auto intro: filter_cong)
  with Cons show ?case
    by (simp add: first_seen_Cons del: filter_filter set_simps)
qed

lemma keys_allocate: "map fst (spec_allocate ns start) = first_seen ns"
  by (simp add: allocate_eq length_first_seen length_run)

lemma values_allocate: "map snd (spec_allocate ns start) = run start (card (set ns))"
  by (simp add: allocate_eq length_first_seen length_run)

lemma lookup_allocate:
  assumes "ns = pre @ n # post" and "n \<notin> set pre"
  shows "map_of (spec_allocate ns start) n = Some (start + int (card (set pre)))"
proof -
  define k where "k = card (set pre)"
  define ks where "ks = first_seen ns"
  define vs where "vs = run start (card (set ns))"
  define rest where "rest = filter (\<lambda>y. y \<notin> set pre) (filter (\<lambda>y. y \<noteq> n) (first_seen post))"
  have ks: "ks = first_seen pre @ n # rest"
    unfolding ks_def rest_def assms(1) first_seen_append first_seen_Cons
    using assms(2) by simp
  have lpre: "length (first_seen pre) = k"
    unfolding k_def by (rule length_first_seen)
  have len: "length ks = length vs"
    unfolding ks_def vs_def by (simp only: length_first_seen length_run)
  have "length ks = k + Suc (length rest)"
    unfolding ks using lpre by simp
  with len have k: "k < length vs" by simp
  have nth: "ks ! k = n"
    unfolding ks using lpre by (simp add: nth_append)
  have d: "distinct ks"
    unfolding ks_def by (rule distinct_first_seen)
  have "map_of (zip ks vs) (ks ! k) = Some (vs ! k)"
    using len d k by (rule map_of_zip_nth)
  moreover have "vs ! k = start + int k"
    using k unfolding vs_def run_def by simp
  ultimately have "map_of (zip ks vs) n = Some (start + int k)"
    by (simp only: nth)
  then show ?thesis
    unfolding allocate_eq ks_def vs_def k_def .
qed

text \<open>
  Claim C1. For every sequence of objects and every start id, each of the two allocation
  loops assigns one id to each distinct name, in the order in which the names are first
  seen, and the ids are the consecutive integers from the start id on: the keys of the
  dictionary are the names with later repetitions removed, its values are
  \<open>start, start + 1, ...\<close>, one for each distinct name, and a name first seen after
  \<open>pre\<close> has the id \<open>start\<close> plus the number of distinct names in \<open>pre\<close>, which is
  also what every repetition of it looks up.
\<close>

theorem allocator_gapless_first_seen:
  "map fst (fst (mapping_loop objs ([], start))) = rev (remdups (rev (map ipl_name objs)))
   \<and> map snd (fst (mapping_loop objs ([], start)))
        = map (\<lambda>k. start + int k) [0..<card (set (map ipl_name objs))]
   \<and> (\<forall>pre n post. map ipl_name objs = pre @ n # post \<and> n \<notin> set pre
         \<longrightarrow> map_of (fst (mapping_loop objs ([], start))) n = Some (start + int (card (set pre))))
   \<and> map fst (ide_mapping start objs) = rev (remdups (rev (map base_name objs)))
   \<and> map snd (ide_mapping start objs)
        = map (\<lambda>k. start + int k) [0..<card (set (map base_name objs))]
   \<and> (\<forall>pre n post. map base_name objs = pre @ n # post \<and> n \<notin> set pre
         \<longrightarrow> map_of (ide_mapping start objs) n = Some (start + int (card (set pre))))"
proof (intro conjI allI impI)
  show "map fst (fst (mapping_loop objs ([], start))) = rev (remdups (rev (map ipl_name objs)))"
    unfolding generate_mapping_loop_eq keys_allocate first_seen_def ..
  show "map snd (fst (mapping_loop objs ([], start)))
        = map (\<lambda>k. start + int k) [0..<card (set (map ipl_name objs))]"
    unfolding generate_mapping_loop_eq values_allocate run_def ..
  show "map fst (ide_mapping start objs) = rev (remdups (rev (map base_name objs)))"
    unfolding ide_mapping_eq keys_allocate first_seen_def ..
  show "map snd (ide_mapping start objs)
        = map (\<lambda>k. start + int k) [0..<card (set (map base_name objs))]"
    unfolding ide_mapping_eq values_allocate run_def ..
next
  fix pre n post
  assume "map ipl_name objs = pre @ n # post \<and> n \<notin> set pre"
  then show "map_of (fst (mapping_loop objs ([], start))) n = Some (start + int (card (set pre)))"
    unfolding generate_mapping_loop_eq by (intro lookup_allocate) simp_all
next
  fix pre n post
  assume "map base_name objs = pre @ n # post \<and> n \<notin> set pre"
  then show "map_of (ide_mapping start objs) n = Some (start + int (card (set pre)))"
    unfolding ide_mapping_eq by (intro lookup_allocate) simp_all
qed

lemma names_example:
  "map ipl_name [mesh_named ''Wall.003'' [], mesh_named ''Cube'' [''House.dff''], mesh_named ''Wall'' []]
     = [''Wall''] @ ''House'' # [''Wall'']"
  "map base_name [mesh_named ''Wall.003'' [], mesh_named ''Cube'' [''House.dff''], mesh_named ''Wall'' []]
     = [''Wall''] @ ''House'' # [''Wall'']"
  by (simp_all add: ipl_name_def base_name_def mesh_named_def or_unnamed_def match_num_def
        match_dff_def ci_eq_def is_digit_def at_end_def)

theorem allocator_gapless_first_seen_witness:
  "map_of (fst (mapping_loop
       [mesh_named ''Wall.003'' [], mesh_named ''Cube'' [''House.dff''], mesh_named ''Wall'' []]
       ([], 100))) ''House'' = Some 101
   \<and> map_of (ide_mapping 100
       [mesh_named ''Wall.003'' [], mesh_named ''Cube'' [''House.dff''], mesh_named ''Wall'' []])
       ''House'' = Some 101"
proof -
  let ?objs = "[mesh_named ''Wall.003'' [], mesh_named ''Cube'' [''House.dff''], mesh_named ''Wall'' []]"
  note inst = allocator_gapless_first_seen[of ?objs 100]
  have n: "''House'' \<notin> set [''Wall'']" by simp
  have c: "(100::int) + int (card (set [''Wall''])) = 101" by simp
  have "map_of (fst (mapping_loop ?objs ([], 100))) ''House'' = Some (100 + int (card (set [''Wall''])))"
    using inst names_example(1) n by blast
  moreover have "map_of (ide_mapping 100 ?objs) ''House'' = Some (100 + int (card (set [''Wall''])))"
    using inst names_example(2) n by blast
  ultimately show ?thesis
    unfolding c by (rule conjI)
qed

subsection \<open>Concrete instances of names\<close>

lemmas name_defs = ipl_name_def base_name_def mesh_named_def or_unnamed_def match_num_def
        match_dff_def ci_eq_def is_digit_def at_end_def

subsection \<open>The resolver as a function of name and collection\<close>



text \<open>
  This is not a statement about feeding a name back into the regular expression: as a
  function on strings, \<open>clean_name\<close> can strip a further suffix from its own result.
\<close>

lemma clean_name_not_idempotent: "clean_name (clean_name ''a.1.2'') \<noteq> clean_name ''a.1.2''"
  by (simp add: match_num_def is_digit_def at_end_def)

subsection \<open>Starting ids\<close>

text \<open>
  Claim C7, as stated, fails: with a starting id of zero the base of allocation is
  the scene's start id, here 100, not 4542.
\<close>

theorem start_id_zero_counterexample:
  "ide_start_id 0 (Some 100) = 100 \<and> ipl_start_id 0 (Some 100) = Inr 100
   \<and> generate_mapping 0 (Some 100) [mesh_named ''Wall'' []] = Inr [(''Wall'', 100)]
   \<and> ide_mapping (ide_start_id 0 (Some 100)) [mesh_named ''Wall'' []] = [(''Wall'', 100)]"
  by (simp add: ide_start_id_def ipl_start_id_def generate_mapping_def ide_mapping_def ids_of_def
        dict_has_def name_defs)

text \<open>
  Claim C7, amended. A starting id other than zero is the base of allocation. With a
  starting id of zero, the base is the scene's \<^verbatim>\<open>gtass_model_id\<close> when the scene has
  one, and the definitions exporter uses 4542 when the scene has none. An operator whose
  starting id was never set carries the property default 4542. \<^verbatim>\<open>invoke\<close> replaces a
  starting id of zero or 4542 by the scene's \<^verbatim>\<open>gtass_model_id\<close>.
\<close>

theorem start_id_rule:
  "(mid \<noteq> 0 \<longrightarrow> ide_start_id mid scene_id = mid \<and> ipl_start_id mid scene_id = Inr mid)
   \<and> ide_start_id 0 (Some s) = s \<and> ipl_start_id 0 (Some s) = Inr s
   \<and> ide_start_id 0 None = 4542
   \<and> ide_start_id model_id_default scene_id = 4542
   \<and> ipl_start_id model_id_default scene_id = Inr 4542
   \<and> invoke_model_id 0 (Some s) = s \<and> invoke_model_id model_id_default (Some s) = s"
  by (simp add: ide_start_id_def ipl_start_id_def model_id_default_def invoke_model_id_def)

theorem start_id_rule_witness:
  "ide_start_id 7 (Some 100) = 7 \<and> ipl_start_id 7 (Some 100) = Inr 7"
  using start_id_rule[of 7 "Some 100" 0] by simp

subsection \<open>The two exporters on the same objects\<close>

text \<open>
  Claim C2, evaluated where it fails. For two mesh objects, the first in a collection
  named \<^verbatim>\<open>.dff\<close> and the second in a collection named \<^verbatim>\<open>Unnamed\<close>, and the start id
  100, the definitions exporter gives the name \<^verbatim>\<open>Unnamed\<close> the id 101 (the empty name
  took 100), and the placements exporter gives it the id 100.
\<close>

theorem mappings_differ_on_empty_name:
  "map_of (ide_mapping 100 [mesh_named ''A'' [''.dff''], mesh_named ''B'' [''Unnamed'']]) ''Unnamed'' = Some 101
   \<and> generate_mapping 100 (Some 4542) [mesh_named ''A'' [''.dff''], mesh_named ''B'' [''Unnamed'']]
       = Inr [(''Unnamed'', 100)]"
  by (simp add: ipl_start_id_def generate_mapping_def ide_mapping_def ids_of_def
        dict_has_def name_defs)

text \<open>When no object resolves to the empty name, the two dictionaries are equal.\<close>

lemma or_unnamed_id: "nm \<noteq> [] \<Longrightarrow> or_unnamed nm = nm"
  by (simp add: or_unnamed_def)

lemma mappings_agree_if_named:
  assumes "\<forall>ob \<in> set objs. base_name ob \<noteq> []"
  shows "ide_mapping start objs = fst (mapping_loop objs ([], start))"
proof -
  have eq: "map ipl_name objs = map base_name objs"
    using assms by (simp add: ipl_name_def or_unnamed_id)
  show ?thesis
    unfolding ide_mapping_eq generate_mapping_loop_eq eq ..
qed

subsection \<open>Writing files\<close>

lemma f_write_raised: "raised f \<noteq> None \<Longrightarrow> f_write env s f = f"
  by (simp add: f_write_def)

lemma writes_raised:
  "raised f \<noteq> None \<Longrightarrow> foldl (\<lambda>h s. f_write env s h) f ws = f"
  by (induction ws) (simp_all add: f_write_raised)

lemma writes_unlimited:
  "raised f = None \<Longrightarrow> budget f = None \<Longrightarrow>
     foldl (\<lambda>h s. f_write env s h) f ws = f\<lparr>written := written f @ ws\<rparr>"
  by (induction ws arbitrary: f) (simp_all add: f_write_def)

lemma writes_limited:
  "raised f = None \<Longrightarrow> budget f = Some k \<Longrightarrow>
     foldl (\<lambda>h s. f_write env s h) f ws =
       (if length ws \<le> k then f\<lparr>written := written f @ ws, budget := Some (k - length ws)\<rparr>
        else f\<lparr>written := written f @ take k ws, budget := Some 0, raised := Some (write_error env)\<rparr>)"
proof (induction ws arbitrary: f k)
  case Nil
  then show ?case by simp
next
  case (Cons s ws)
  show ?case
  proof (cases k)
    case 0
    let ?g = "f\<lparr>raised := Some (write_error env)\<rparr>"
    have g: "f_write env s f = ?g"
      using Cons.prems 0 by (simp add: f_write_def)
    have "foldl (\<lambda>h s. f_write env s h) ?g ws = ?g"
      by (rule writes_raised) simp
    moreover have "?g = f\<lparr>written := written f @ take k (s # ws), budget := Some 0,
                          raised := Some (write_error env)\<rparr>"
      using Cons.prems 0 by simp
    ultimately show ?thesis
      using 0 by (simp add: g)
  next
    case (Suc j)
    let ?g = "f\<lparr>written := written f @ [s], budget := Some j\<rparr>"
    have g: "f_write env s f = ?g"
      using Cons.prems Suc by (simp add: f_write_def)
    have "raised ?g = None" "budget ?g = Some j"
      using Cons.prems by simp_all
    from Cons.IH[OF this] show ?thesis
      by (simp add: g Suc)
  qed
qed

lemma write_ide_records_foldl:
  "write_ide_records env items f = foldl (\<lambda>h s. f_write env s h) f (map ide_line items)"
  by (induction items arbitrary: f) simp_all

lemma write_ipl_records_foldl:
  "write_ipl_records ext self env mapping objs f
     = foldl (\<lambda>h s. f_write env s h) f (map (\<lambda>obj. ipl_line ext (ipl_record ext self mapping obj)) objs)"
  by (induction objs arbitrary: f) simp_all

lemma ide_handle:
  "f_write env (''end'' @ [CHR 0x0A])
     (write_ide_records env (fst (ide_loop objs ([], start)))
        (f_write env (''objs'' @ [CHR 0x0A]) (f_open env)))
   = foldl (\<lambda>h s. f_write env s h) (f_open env) (ide_output start objs)"
  by (simp add: write_ide_records_foldl ide_output_def)

lemma ipl_handle:
  "write_ipl ext self env (f_open env) objs mapping
   = foldl (\<lambda>h s. f_write env s h) (f_open env) (ipl_output ext self mapping objs)"
  by (simp add: write_ipl_def write_ipl_records_foldl ipl_output_def)

lemma writes_from_open:
  "foldl (\<lambda>h s. f_write env s h) (f_open env) ws =
     (case writes_ok env of
        None \<Rightarrow> \<lparr>written = ws, budget = None, raised = None\<rparr>
      | Some k \<Rightarrow>
          if length ws \<le> k then \<lparr>written = ws, budget = Some (k - length ws), raised = None\<rparr>
          else \<lparr>written = take k ws, budget = Some 0, raised = Some (write_error env)\<rparr>)"
proof (cases "writes_ok env")
  case None
  then show ?thesis
    by (simp add: writes_unlimited f_open_def)
next
  case (Some k)
  then show ?thesis
    by (simp add: writes_limited[where k = k] f_open_def)
qed

text \<open>
  Claim C4. When the selection holds no mesh object, both exporters report the warning
  \<^verbatim>\<open>No mesh objects selected.\<close>, return \<^verbatim>\<open>CANCELLED\<close>, and leave the disk and
  \<^verbatim>\<open>self.filepath\<close> as they were.
\<close>

theorem no_mesh_objects_cancels:
  "mesh_objects context = [] \<Longrightarrow>
     execute_ide env dsk self context
       = \<lparr>ret = CANCELLED, reports = [(WARNING, ''No mesh objects selected.'')],
          disk_after = dsk, filepath_after = filepath self\<rparr>
     \<and> execute_ipl ext env dsk self' context
       = \<lparr>ret = CANCELLED, reports = [(WARNING, ''No mesh objects selected.'')],
          disk_after = dsk, filepath_after = filepath self'\<rparr>"
  by (simp add: execute_ide_def execute_ipl_def)

lemma execute_ide_opened:
  assumes "mesh_objects context \<noteq> []" and "open_error env = None"
  shows "execute_ide env dsk self context =
     (let path = (if \<not> endswith (map lower_char (filepath self)) ''.ide''
                  then filepath self @ ''.ide'' else filepath self);
          f = foldl (\<lambda>h s. f_write env s h) (f_open env)
                (ide_output (ide_start_id (model_id self) (gtass_model_id context)) (mesh_objects context))
      in case raised f of
           Some msg \<Rightarrow> \<lparr>ret = CANCELLED, reports = [(ERROR, ''IDE export failed: '' @ msg)],
                        disk_after = dsk(path \<mapsto> written f), filepath_after = path\<rparr>
         | None \<Rightarrow> \<lparr>ret = FINISHED, reports = [(INFO, ''IDE export complete: '' @ path)],
                     disk_after = dsk(path \<mapsto> written f), filepath_after = path\<rparr>)"
  using assms unfolding execute_ide_def Let_def ide_handle by simp





theorem no_mesh_objects_cancels_witness:
  "execute_ide (disk_full_after 1) Map.empty \<lparr>filepath = ''out.ide'', model_id = 100\<rparr>
       \<lparr>selected_objects = [(mesh_named ''Lamp'' [])\<lparr>otype := ''LIGHT''\<rparr>], gtass_model_id = Some 4542\<rparr>
     = \<lparr>ret = CANCELLED, reports = [(WARNING, ''No mesh objects selected.'')],
        disk_after = Map.empty, filepath_after = ''out.ide''\<rparr>
   \<and> execute_ipl example_externals (disk_full_after 1) Map.empty
       \<lparr>filepath = ''out.ipl'', model_id = 100, apply_default_rotation = False,
        default_rotation = \<lparr>vx = 0, vy = 0, vz = 0\<rparr>\<rparr>
       \<lparr>selected_objects = [(mesh_named ''Lamp'' [])\<lparr>otype := ''LIGHT''\<rparr>], gtass_model_id = Some 4542\<rparr>
     = \<lparr>ret = CANCELLED, reports = [(WARNING, ''No mesh objects selected.'')],
        disk_after = Map.empty, filepath_after = ''out.ipl''\<rparr>"
proof -
  have "mesh_objects \<lparr>selected_objects = [(mesh_named ''Lamp'' [])\<lparr>otype := ''LIGHT''\<rparr>],
           gtass_model_id = Some 4542\<rparr> = []"
    by (simp add: mesh_objects_def mesh_named_def)
  from no_mesh_objects_cancels[OF this] show ?thesis
    by simp
qed

subsection \<open>Failures while writing\<close>

lemma str_int_examples:
  "str_int 4542 = ''4542''" "str_int 299 = ''299''" "str_int 100 = ''100''"
  "str_int 0 = ''0''" "str_int (- 1) = ''-1''"
  by (simp_all add: str_int_def str_nat.simps)





subsection \<open>An object whose name comes out empty\<close>

text \<open>
  Claim C6, evaluated where it fails. For one mesh object in a collection named
  \<^verbatim>\<open>.dff\<close> the definitions exporter writes a record with an empty name field, where the
  placements exporter allocates and writes the name \<^verbatim>\<open>Unnamed\<close>.
\<close>

theorem ide_writes_empty_name:
  "disk_after (execute_ide no_fault Map.empty \<lparr>filepath = ''out.ide'', model_id = 4542\<rparr>
         \<lparr>selected_objects = [mesh_named ''Cube'' [''.dff'']], gtass_model_id = Some 4542\<rparr>)
       ''out.ide''
     = Some [''objs'' @ [CHR 0x0A], ''4542, , generic, 299, 0'' @ [CHR 0x0A], ''end'' @ [CHR 0x0A]]
   \<and> generate_mapping 4542 (Some 4542) [mesh_named ''Cube'' [''.dff'']] = Inr [(''Unnamed'', 4542)]
   \<and> r_nm (ipl_record example_externals
        \<lparr>filepath = ''out.ipl'', model_id = 4542, apply_default_rotation = False,
         default_rotation = \<lparr>vx = 0, vy = 0, vz = 0\<rparr>\<rparr>
        [(''Unnamed'', 4542)] (mesh_named ''Cube'' [''.dff''])) = ''Unnamed''"
proof -
  let ?ctx = "\<lparr>selected_objects = [mesh_named ''Cube'' [''.dff'']], gtass_model_id = Some 4542\<rparr>"
  have m: "mesh_objects ?ctx = [mesh_named ''Cube'' [''.dff'']]"
    by (simp add: mesh_objects_def mesh_named_def)
  have o: "open_error no_fault = None"
    by (simp add: no_fault_def)
  have ne: "mesh_objects ?ctx \<noteq> []"
    unfolding m by simp
  have out: "ide_output 4542 [mesh_named ''Cube'' [''.dff'']]
     = [''objs'' @ [CHR 0x0A], ''4542, , generic, 299, 0'' @ [CHR 0x0A], ''end'' @ [CHR 0x0A]]"
    by (simp add: ide_output_def ide_line_def dict_has_def name_defs str_int_examples)
  have 1: "disk_after (execute_ide no_fault Map.empty \<lparr>filepath = ''out.ide'', model_id = 4542\<rparr> ?ctx)
       ''out.ide''
     = Some [''objs'' @ [CHR 0x0A], ''4542, , generic, 299, 0'' @ [CHR 0x0A], ''end'' @ [CHR 0x0A]]"
    unfolding execute_ide_opened[OF ne o] m writes_from_open
    by (simp add: out ide_start_id_def endswith_def lower_char_def no_fault_def Let_def)
  have 2: "generate_mapping 4542 (Some 4542) [mesh_named ''Cube'' [''.dff'']] = Inr [(''Unnamed'', 4542)]"
    by (simp add: generate_mapping_def ipl_start_id_def dict_has_def name_defs)
  have 3: "r_nm (ipl_record example_externals
        \<lparr>filepath = ''out.ipl'', model_id = 4542, apply_default_rotation = False,
         default_rotation = \<lparr>vx = 0, vy = 0, vz = 0\<rparr>\<rparr>
        [(''Unnamed'', 4542)] (mesh_named ''Cube'' [''.dff''])) = ''Unnamed''"
    by (simp add: ipl_record_def Let_def name_defs)
  from 1 2 3 show ?thesis by blast
qed

subsection \<open>Placement records\<close>

text \<open>
  Claim C3. The quaternion in the record of an object is obtained from the object's world
  rotation: when \<^verbatim>\<open>apply_default_rotation\<close> is set it is first multiplied from the left
  by the quaternion of \<^verbatim>\<open>default_rotation\<close>, then its x and z components are negated
  and its y and w components are kept; the line of the record carries these four values
  in the order x, y, z, w after the position. When no write fails, \<^verbatim>\<open>write_ipl\<close> writes
  the header, one such line for each object in order, and the closing line.
\<close>

theorem placement_quaternion:
  "(let base = (if apply_default_rotation self
                then quat_matmul ext (euler_to_quaternion ext (default_rotation self)) (world_quaternion obj)
                else world_quaternion obj);
        r = ipl_record ext self mapping obj
    in r_rx r = - qx base \<and> r_ry r = qy base \<and> r_rz r = - qz base \<and> r_rw r = qw base
       \<and> ipl_line ext r =
           str_int (r_mid r) @ '', '' @ r_nm r @ '', 0, ''
           @ fmt ext (vx (world_translation obj)) @ '', '' @ fmt ext (vy (world_translation obj)) @ '', ''
           @ fmt ext (vz (world_translation obj)) @ '', ''
           @ fmt ext (- qx base) @ '', '' @ fmt ext (qy base) @ '', ''
           @ fmt ext (- qz base) @ '', '' @ fmt ext (qw base) @ '', -1'' @ [CHR 0x0A])
   \<and> written (write_ipl ext self (env\<lparr>writes_ok := None\<rparr>) (f_open (env\<lparr>writes_ok := None\<rparr>)) objs mapping)
       = ipl_header # map (\<lambda>obj. ipl_line ext (ipl_record ext self mapping obj)) objs @ [''end'' @ [CHR 0x0A]]"
proof (rule conjI)
  show "written (write_ipl ext self (env\<lparr>writes_ok := None\<rparr>) (f_open (env\<lparr>writes_ok := None\<rparr>)) objs mapping)
       = ipl_header # map (\<lambda>obj. ipl_line ext (ipl_record ext self mapping obj)) objs @ [''end'' @ [CHR 0x0A]]"
    unfolding ipl_handle writes_from_open by (simp add: ipl_output_def)
  show "(let base = (if apply_default_rotation self
                then quat_matmul ext (euler_to_quaternion ext (default_rotation self)) (world_quaternion obj)
                else world_quaternion obj);
        r = ipl_record ext self mapping obj
    in r_rx r = - qx base \<and> r_ry r = qy base \<and> r_rz r = - qz base \<and> r_rw r = qw base
       \<and> ipl_line ext r =
           str_int (r_mid r) @ '', '' @ r_nm r @ '', 0, ''
           @ fmt ext (vx (world_translation obj)) @ '', '' @ fmt ext (vy (world_translation obj)) @ '', ''
           @ fmt ext (vz (world_translation obj)) @ '', ''
           @ fmt ext (- qx base) @ '', '' @ fmt ext (qy base) @ '', ''
           @ fmt ext (- qz base) @ '', '' @ fmt ext (qw base) @ '', -1'' @ [CHR 0x0A])"
    by (simp add: ipl_record_def ipl_line_def Let_def str_int_examples)
qed

text \<open>
  Claim C10. When the dictionary passed to the record writer is the one that
  \<^verbatim>\<open>generate_mapping\<close> built over the same object list, the lookup of the name of every
  object of the list succeeds, the record carries the id found (not the fallback), and
  this id is at least the start id and less than the start id plus the number of distinct
  names.
\<close>

theorem placement_ids_in_range:
  assumes "generate_mapping mid scene_id objs = Inr mapping"
    and "ipl_start_id mid scene_id = Inr start"
    and "ob \<in> set objs"
  shows "map_of mapping (ipl_name ob) = Some (r_mid (ipl_record ext self mapping ob))
         \<and> start \<le> r_mid (ipl_record ext self mapping ob)
         \<and> r_mid (ipl_record ext self mapping ob) < start + int (card (set (map ipl_name objs)))"
proof -
  let ?names = "map ipl_name objs"
  let ?n = "card (set ?names)"
  have mapping: "mapping = zip (first_seen ?names) (run start ?n)"
    using assms(1,2) by (simp add: generate_mapping_def generate_mapping_loop_eq allocate_eq)
  have "ipl_name ob \<in> set (first_seen ?names)"
    using assms(3) by (simp add: set_first_seen)
  moreover have "length (first_seen ?names) = length (run start ?n)"
    by (simp add: length_first_seen length_run)
  ultimately obtain v where v: "map_of mapping (ipl_name ob) = Some v"
    unfolding mapping by (metis map_of_zip_is_Some)
  then have "(ipl_name ob, v) \<in> set (zip (first_seen ?names) (run start ?n))"
    unfolding mapping by (rule map_of_SomeD)
  then have "v \<in> set (run start ?n)"
    by (rule set_zip_rightD)
  then have range: "start \<le> v \<and> v < start + int ?n"
    by (auto simp: run_def)
  have mid: "r_mid (ipl_record ext self mapping ob) = v"
    using v by (simp add: ipl_record_def Let_def dict_get_def ipl_name_def)
  show ?thesis
    unfolding mid using v range by simp
qed

theorem placement_ids_in_range_witness:
  "map_of [(''Wall'', 100), (''House'', 101)] (ipl_name (mesh_named ''Cube'' [''House.dff'']))
     = Some (r_mid (ipl_record example_externals
          \<lparr>filepath = ''out.ipl'', model_id = 100, apply_default_rotation = False,
           default_rotation = \<lparr>vx = 0, vy = 0, vz = 0\<rparr>\<rparr>
          [(''Wall'', 100), (''House'', 101)] (mesh_named ''Cube'' [''House.dff''])))
   \<and> 100 \<le> r_mid (ipl_record example_externals
          \<lparr>filepath = ''out.ipl'', model_id = 100, apply_default_rotation = False,
           default_rotation = \<lparr>vx = 0, vy = 0, vz = 0\<rparr>\<rparr>
          [(''Wall'', 100), (''House'', 101)] (mesh_named ''Cube'' [''House.dff'']))
   \<and> r_mid (ipl_record example_externals
          \<lparr>filepath = ''out.ipl'', model_id = 100, apply_default_rotation = False,
           default_rotation = \<lparr>vx = 0, vy = 0, vz = 0\<rparr>\<rparr>
          [(''Wall'', 100), (''House'', 101)] (mesh_named ''Cube'' [''House.dff'']))
       < 100 + int (card (set (map ipl_name
            [mesh_named ''Wall.003'' [], mesh_named ''Cube'' [''House.dff'']])))"
proof -
  have g: "generate_mapping 100 (Some 4542) [mesh_named ''Wall.003'' [], mesh_named ''Cube'' [''House.dff'']]
           = Inr [(''Wall'', 100), (''House'', 101)]"
    by (simp add: generate_mapping_def ipl_start_id_def dict_has_def name_defs)
  have s: "ipl_start_id 100 (Some 4542) = Inr 100"
    by (simp add: ipl_start_id_def)
  have i: "mesh_named ''Cube'' [''House.dff'']
           \<in> set [mesh_named ''Wall.003'' [], mesh_named ''Cube'' [''House.dff'']]"
    by simp
  show ?thesis
    by (rule placement_ids_in_range[OF g s i])
qed

end
